theory Spec2Isabelle
  imports Main "HOL-Library.Word"
begin

section \<open>The storage engine, as the object store reads it\<close>

text \<open>
  The storage engine (\<^verbatim>\<open>realm::Group\<close>, \<^verbatim>\<open>realm::Table\<close>) is an external collaborator.
  It is modelled by the data the object store reads from it and writes to it: a group is
  the ordered list of its tables, a table is its name and the ordered list of its columns.
  Names are held as the C strings the code obtains through \<^verbatim>\<open>StringData::data()\<close>.
\<close>

text \<open>
  Modelled from the spec: the enumeration \<^verbatim>\<open>PropertyType\<close> (declared in property.hpp) is the
  closed set of kinds integer, boolean, float, double, string, binary data, date,
  object-link and link-list. The constructor casts the engine's column type to it, so
  columns carry the same type.
\<close>

datatype PropertyType =
    PropertyTypeInt
  | PropertyTypeBool
  | PropertyTypeFloat
  | PropertyTypeDouble
  | PropertyTypeString
  | PropertyTypeData
  | PropertyTypeDate
  | PropertyTypeObject
  | PropertyTypeArray

text \<open>
  One physical column: \<open>link_target\<close> is the name of the table that
  \<^verbatim>\<open>get_link_target(col)\<close> refers to; the code reads it for link columns only.
\<close>

record Column =
  column_name :: string
  column_type :: PropertyType
  search_index :: bool
  link_target :: string

record Table =
  table_name :: string
  columns :: "Column list"

text \<open>
  A group: its tables in iteration order, and the reserved metadata area (the
  primary-key registry, a list of rows (object type, property name), and the version
  counter), each \<open>None\<close> while its table does not exist.
\<close>

record Group =
  tables :: "Table list"
  pk_table :: "(string \<times> string) list option"
  metadata_table :: "64 word option"

definition get_column_count :: "Table \<Rightarrow> nat" where
  "get_column_count table = length (columns table)"

definition get_column_name :: "Table \<Rightarrow> nat \<Rightarrow> string" where
  "get_column_name table col = column_name (columns table ! col)"

definition get_column_type :: "Table \<Rightarrow> nat \<Rightarrow> PropertyType" where
  "get_column_type table col = column_type (columns table ! col)"

definition has_search_index :: "Table \<Rightarrow> nat \<Rightarrow> bool" where
  "has_search_index table col = search_index (columns table ! col)"

definition get_link_target :: "Table \<Rightarrow> nat \<Rightarrow> string" where
  "get_link_target table col = link_target (columns table ! col)"

definition get_table_name :: "Group \<Rightarrow> nat \<Rightarrow> string" where
  "get_table_name g i = table_name (tables g ! i)"

text \<open>\<^verbatim>\<open>Group::get_table(name)\<close>: the table of that name, or a null reference.\<close>

definition get_table :: "Group \<Rightarrow> string \<Rightarrow> Table option" where
  "get_table g n = find (\<lambda>t. table_name t = n) (tables g)"

section \<open>Descriptors and failures\<close>

text \<open>
  Modelled from the spec: the struct \<^verbatim>\<open>Property\<close> (property.hpp) and the fields of
  \<^verbatim>\<open>ObjectSchema\<close> (object_schema.hpp), as section 3 of the specification lists them and
  as object_schema.cpp assigns them.
\<close>

record Property =
  name :: string
  type :: PropertyType
  object_type :: string
  is_primary :: bool
  is_indexed :: bool
  table_column :: nat

record ObjectSchema =
  name :: string
  properties :: "Property list"
  primary_key :: string

text \<open>
  The exceptions of object_store.hpp, as values. \<open>NullTableRef\<close> stands for the
  dereference of a null \<^verbatim>\<open>TableRef\<close>, which the code does not guard against.
\<close>

datatype Kind = RealmVersionGreaterThanSchemaVersion

datatype error =
    NullTableRef
  | ObjectStoreException Kind
  | ObjectStoreValidationException "string list" string

section \<open>Helpers of the object store that object_schema.cpp calls\<close>

text \<open>
  Modelled from the spec: the translation between logical type names and physical table
  names is a fixed, reversible string transform, a reserved prefix. The prefix itself is
  not given; the general theorems below do not depend on its value.
\<close>

definition object_table_name_prefix :: string where
  "object_table_name_prefix = ''class_''"

text \<open>Modelled from the spec: \<^verbatim>\<open>ObjectStore::table_name_for_object_type\<close> adds the prefix.\<close>

definition table_name_for_object_type :: "string \<Rightarrow> string" where
  "table_name_for_object_type class_name = object_table_name_prefix @ class_name"

text \<open>
  Modelled from the spec: \<^verbatim>\<open>ObjectStore::object_type_for_table_name\<close> removes the prefix;
  a table name outside the convention decodes to the empty name.
\<close>

definition object_type_for_table_name :: "string \<Rightarrow> string" where
  "object_type_for_table_name tn =
     (if take (length object_table_name_prefix) tn = object_table_name_prefix
      then drop (length object_table_name_prefix) tn
      else [])"

text \<open>
  Modelled from the spec: \<^verbatim>\<open>ObjectStore::table_for_object_type\<close> resolves the physical
  table of a logical type by its physical name.
\<close>

definition table_for_object_type :: "Group \<Rightarrow> string \<Rightarrow> Table option" where
  "table_for_object_type g object_type_name =
     get_table g (table_name_for_object_type object_type_name)"

text \<open>
  Modelled from the spec: \<^verbatim>\<open>ObjectStore::get_primary_key_for_object\<close> looks the stored
  primary-key name of a type up in the registry; the empty name when none is stored.
\<close>

definition get_primary_key_for_object :: "Group \<Rightarrow> string \<Rightarrow> string" where
  "get_primary_key_for_object g object_type_name =
     (case pk_table g of
        None \<Rightarrow> []
      | Some rows \<Rightarrow>
          (case map_of rows object_type_name of None \<Rightarrow> [] | Some p \<Rightarrow> p))"

section \<open>object_schema.cpp\<close>

text \<open>
  \<^verbatim>\<open>ObjectSchema::property_for_name\<close>: the linear scan. The pointer it returns is modelled
  by the position of the property in \<open>properties\<close>; \<open>None\<close> is the null pointer.
\<close>

fun property_index :: "Property list \<Rightarrow> string \<Rightarrow> nat option" where
  "property_index [] n = None"
| "property_index (prop # props) n =
     (if Property.name prop = n then Some 0
      else map_option Suc (property_index props n))"

definition property_for_name :: "ObjectSchema \<Rightarrow> string \<Rightarrow> nat option" where
  "property_for_name os n = property_index (properties os) n"

text \<open>
  Modelled from the spec: \<^verbatim>\<open>ObjectSchema::primary_key_property\<close> (object_schema.hpp)
  looks up the property named by \<open>primary_key\<close>.
\<close>

definition primary_key_property :: "ObjectSchema \<Rightarrow> nat option" where
  "primary_key_property os = property_for_name os (primary_key os)"

text \<open>The column loop of the constructor, lines 28 to 44.\<close>

function read_columns :: "Table \<Rightarrow> nat \<Rightarrow> nat \<Rightarrow> Property list \<Rightarrow> Property list" where
  "read_columns table col count props =
     (if col < count then
        read_columns table (Suc col) count
          (props @
            [\<lparr>Property.name = get_column_name table col,
              type = get_column_type table col,
              object_type =
                (if get_column_type table col = PropertyTypeObject
                    \<or> get_column_type table col = PropertyTypeArray
                 then object_type_for_table_name (get_link_target table col)
                 else []),
              is_primary = False,
              is_indexed = has_search_index table col,
              table_column = col\<rparr>])
      else props)"
  by pat_completeness auto
termination
  by (relation "measure (\<lambda>(table, col, count, props). count - col)") auto

declare read_columns.simps [simp del]

text \<open>
  The constructor \<^verbatim>\<open>ObjectSchema::ObjectSchema(group, name)\<close>. It fails with the
  validation exception when a primary key is stored for the type and no property has
  that name, and otherwise marks the property found.
\<close>

definition ObjectSchema :: "Group \<Rightarrow> string \<Rightarrow> error + ObjectSchema" where
  "ObjectSchema g n =
     (case table_for_object_type g n of
        None \<Rightarrow> Inl NullTableRef
      | Some table \<Rightarrow>
          (let os = \<lparr>ObjectSchema.name = n,
                     properties = read_columns table 0 (get_column_count table) [],
                     primary_key = get_primary_key_for_object g n\<rparr>
           in if length (primary_key os) \<noteq> 0 then
                (case primary_key_property os of
                   None \<Rightarrow>
                     Inl (ObjectStoreValidationException
                            [''No property matching primary key '' @ [CHR 0x27]
                               @ primary_key os @ [CHR 0x27]] n)
                 | Some i \<Rightarrow>
                     Inr (os\<lparr>properties :=
                               (properties os)[i := (properties os ! i)\<lparr>is_primary := True\<rparr>]\<rparr>))
              else Inr os))"

text \<open>The table loop of \<^verbatim>\<open>ObjectSchema::object_schema_from_group\<close>, lines 72 to 77.\<close>

function read_tables ::
  "Group \<Rightarrow> nat \<Rightarrow> nat \<Rightarrow> ObjectSchema list \<Rightarrow> error + ObjectSchema list" where
  "read_tables g i numTables object_schema =
     (if i < numTables then
        (let n = object_type_for_table_name (get_table_name g i)
         in if length n \<noteq> 0 then
              (case ObjectSchema g n of
                 Inl e \<Rightarrow> Inl e
               | Inr os \<Rightarrow> read_tables g (Suc i) numTables (object_schema @ [os]))
            else read_tables g (Suc i) numTables object_schema)
      else Inr object_schema)"
  by pat_completeness auto
termination
  by (relation "measure (\<lambda>(g, i, numTables, object_schema). numTables - i)") auto

declare read_tables.simps [simp del]

definition object_schema_from_group :: "Group \<Rightarrow> error + ObjectSchema list" where
  "object_schema_from_group g = read_tables g 0 (length (tables g)) []"

section \<open>The schema coordinator declared in object_store.hpp\<close>

text \<open>
  object_store.hpp declares the coordinator; its bodies are not part of the sources at
  hand. Each definition of this section is therefore written from the specification
  (section 4.2 and its orchestration state machine) and from the comments of the header.
\<close>







text \<open>
  Modelled from the spec: the engine's lookup of a column by name (section 6), the
  position of the first column of that name, if any.
\<close>

fun column_index :: "Column list \<Rightarrow> string \<Rightarrow> nat option" where
  "column_index [] n = None"
| "column_index (c # cs) n =
     (if column_name c = n then Some 0 else map_option Suc (column_index cs n))"

definition get_column_index :: "Table \<Rightarrow> string \<Rightarrow> nat option" where
  "get_column_index table n = column_index (columns table) n"

text \<open>
  The logical type a column links to, read as the constructor reads it: the decoded name
  of the link target for a link column, empty otherwise.
\<close>

definition linked_object_type :: "Table \<Rightarrow> nat \<Rightarrow> string" where
  "linked_object_type table col =
     (if get_column_type table col = PropertyTypeObject
         \<or> get_column_type table col = PropertyTypeArray
      then object_type_for_table_name (get_link_target table col)
      else [])"

text \<open>
  Modelled from the spec: the validation errors are human-readable strings tagged with the
  owning type name; their wording is not given.
\<close>

definition missing_property_error :: "string \<Rightarrow> string \<Rightarrow> string" where
  "missing_property_error object_type_name property_name =
     ''Property '' @ [CHR 0x27] @ property_name @ [CHR 0x27] @ '' of type ''
       @ [CHR 0x27] @ object_type_name @ [CHR 0x27] @ '' is missing''"

definition type_mismatch_error :: "string \<Rightarrow> string \<Rightarrow> string" where
  "type_mismatch_error object_type_name property_name =
     ''Property '' @ [CHR 0x27] @ property_name @ [CHR 0x27] @ '' of type ''
       @ [CHR 0x27] @ object_type_name @ [CHR 0x27] @ '' does not match its column''"

text \<open>
  Modelled from the spec: the property loop of
  \<^verbatim>\<open>ObjectStore::validate_schema_and_update_column_mapping\<close>. For every property of the
  descriptor the matching physical column is located by name; if absent, an error is
  recorded; if present with a different primitive type or a different link-target type, a
  type-mismatch error is recorded; otherwise \<open>table_column\<close> is set to the physical
  position.
\<close>

fun validate_properties ::
  "string \<Rightarrow> Table \<Rightarrow> Property list \<Rightarrow> string list \<times> Property list" where
  "validate_properties tn table [] = ([], [])"
| "validate_properties tn table (prop # props) =
     (let (errors, props') = validate_properties tn table props
      in case get_column_index table (Property.name prop) of
           None \<Rightarrow> (missing_property_error tn (Property.name prop) # errors, prop # props')
         | Some col \<Rightarrow>
             if get_column_type table col \<noteq> type prop
                 \<or> linked_object_type table col \<noteq> object_type prop
             then (type_mismatch_error tn (Property.name prop) # errors, prop # props')
             else (errors, prop\<lparr>table_column := col\<rparr> # props'))"

text \<open>
  Modelled from the spec: \<^verbatim>\<open>ObjectStore::validate_schema_and_update_column_mapping\<close>
  resolves the physical table of the descriptor and runs the loop. It returns the
  accumulated errors, the descriptor with its column mapping, and the store, which it
  hands back as it received it. The spec does not say what happens when the table cannot
  be resolved; that case is the null table reference.
\<close>

definition validate_schema_and_update_column_mapping ::
  "Group \<Rightarrow> ObjectSchema \<Rightarrow> error + (string list \<times> ObjectSchema \<times> Group)" where
  "validate_schema_and_update_column_mapping g target_schema =
     (case table_for_object_type g (ObjectSchema.name target_schema) of
        None \<Rightarrow> Inl NullTableRef
      | Some table \<Rightarrow>
          (let (errors, props') =
                 validate_properties (ObjectSchema.name target_schema) table
                   (properties target_schema)
           in Inr (errors, target_schema\<lparr>properties := props'\<rparr>, g)))"







text \<open>
  The steps that a call of the orchestration performs: the bootstrap of the metadata
  tables, table creation (with its \<open>update_existing\<close> argument), the invocation of the
  migration callback, and the write of the version. A call is observed through the list
  of the steps it performed, in order; a step that fails is the last of the list.
\<close>

datatype step =
    CreateMetadataTables
  | CreateTables bool
  | Migration
  | SetSchemaVersion "64 word"


section \<open>Vocabulary of the statements\<close>

text \<open>
  The property that the column loop of the constructor builds for one column, and the
  list it builds for a whole table.
\<close>

definition column_property :: "Table \<Rightarrow> nat \<Rightarrow> Property" where
  "column_property table col =
     \<lparr>Property.name = get_column_name table col,
      type = get_column_type table col,
      object_type =
        (if get_column_type table col = PropertyTypeObject
            \<or> get_column_type table col = PropertyTypeArray
         then object_type_for_table_name (get_link_target table col)
         else []),
      is_primary = False,
      is_indexed = has_search_index table col,
      table_column = col\<rparr>"

definition column_properties :: "Table \<Rightarrow> Property list" where
  "column_properties table = map (column_property table) [0..<get_column_count table]"

text \<open>
  The logical type names that the tables of a group decode to, in table order, without
  the tables that decode to the empty name.
\<close>

definition object_type_names :: "Group \<Rightarrow> string list" where
  "object_type_names g =
     filter (\<lambda>n. length n \<noteq> 0)
       (map (\<lambda>t. object_type_for_table_name (table_name t)) (tables g))"

text \<open>
  The outcome of a sequence of constructions, the first of which to fail ends the
  sequence: the first failure, or all the results in order.
\<close>

fun collect_results :: "(error + 'a) list \<Rightarrow> error + 'a list" where
  "collect_results [] = Inr []"
| "collect_results (Inl e # rs) = Inl e"
| "collect_results (Inr x # rs) =
     (case collect_results rs of Inl e \<Rightarrow> Inl e | Inr xs \<Rightarrow> Inr (x # xs))"

text \<open>
  The column that satisfies a property of a target descriptor: the first column of the
  property's name, provided its primitive type and its link target are the property's.
  \<open>validation_error\<close> is the error recorded for a property without such a column, and
  \<open>map_column\<close> is what validation does to one property.
\<close>

definition matching_column :: "Table \<Rightarrow> Property \<Rightarrow> nat option" where
  "matching_column table prop =
     (case get_column_index table (Property.name prop) of
        None \<Rightarrow> None
      | Some col \<Rightarrow>
          if get_column_type table col = type prop
              \<and> linked_object_type table col = object_type prop
          then Some col else None)"

definition validation_error :: "string \<Rightarrow> Table \<Rightarrow> Property \<Rightarrow> string" where
  "validation_error tn table prop =
     (case get_column_index table (Property.name prop) of
        None \<Rightarrow> missing_property_error tn (Property.name prop)
      | Some col \<Rightarrow> type_mismatch_error tn (Property.name prop))"

definition map_column :: "Table \<Rightarrow> Property \<Rightarrow> Property" where
  "map_column table prop =
     (case matching_column table prop of
        None \<Rightarrow> prop
      | Some col \<Rightarrow> prop\<lparr>table_column := col\<rparr>)"

section \<open>Example stores\<close>

text \<open>
  A store with two object tables and a table outside the naming convention, and a store
  whose registry names a primary key that the table does not have.
\<close>

definition person_table :: Table where
  "person_table =
     \<lparr>table_name = ''class_Person'',
      columns =
        [\<lparr>column_name = ''id'', column_type = PropertyTypeInt, search_index = True,
           link_target = []\<rparr>,
         \<lparr>column_name = ''nickname'', column_type = PropertyTypeString, search_index = False,
           link_target = []\<rparr>,
         \<lparr>column_name = ''dog'', column_type = PropertyTypeObject, search_index = False,
           link_target = ''class_Dog''\<rparr>]\<rparr>"

definition dog_table :: Table where
  "dog_table =
     \<lparr>table_name = ''class_Dog'',
      columns =
        [\<lparr>column_name = ''age'', column_type = PropertyTypeInt, search_index = False,
           link_target = []\<rparr>]\<rparr>"

definition misc_table :: Table where
  "misc_table = \<lparr>table_name = ''misc'', columns = []\<rparr>"

definition example_group :: Group where
  "example_group =
     \<lparr>tables = [person_table, misc_table, dog_table],
      pk_table = Some [(''Person'', ''id'')],
      metadata_table = Some 1\<rparr>"

definition dangling_group :: Group where
  "dangling_group =
     \<lparr>tables = [dog_table],
      pk_table = Some [(''Dog'', ''id'')],
      metadata_table = Some 1\<rparr>"

definition person_schema :: ObjectSchema where
  "person_schema =
     \<lparr>ObjectSchema.name = ''Person'',
      properties =
        [\<lparr>Property.name = ''id'', type = PropertyTypeInt, object_type = [],
           is_primary = True, is_indexed = True, table_column = 0\<rparr>,
         \<lparr>Property.name = ''nickname'', type = PropertyTypeString, object_type = [],
           is_primary = False, is_indexed = False, table_column = 1\<rparr>,
         \<lparr>Property.name = ''dog'', type = PropertyTypeObject, object_type = ''Dog'',
           is_primary = False, is_indexed = False, table_column = 2\<rparr>],
      primary_key = ''id''\<rparr>"

definition dog_schema :: ObjectSchema where
  "dog_schema =
     \<lparr>ObjectSchema.name = ''Dog'',
      properties =
        [\<lparr>Property.name = ''age'', type = PropertyTypeInt, object_type = [],
           is_primary = False, is_indexed = False, table_column = 0\<rparr>],
      primary_key = []\<rparr>"



definition retyped_dog :: ObjectSchema where
  "retyped_dog =
     \<lparr>ObjectSchema.name = ''Dog'',
      properties =
        [\<lparr>Property.name = ''age'', type = PropertyTypeString, object_type = [],
           is_primary = False, is_indexed = False, table_column = 0\<rparr>,
         \<lparr>Property.name = ''breed'', type = PropertyTypeString, object_type = [],
           is_primary = False, is_indexed = False, table_column = 0\<rparr>],
      primary_key = []\<rparr>"

definition person_target :: ObjectSchema where
  "person_target =
     \<lparr>ObjectSchema.name = ''Person'',
      properties =
        [\<lparr>Property.name = ''dog'', type = PropertyTypeObject, object_type = ''Dog'',
           is_primary = False, is_indexed = False, table_column = 7\<rparr>,
         \<lparr>Property.name = ''id'', type = PropertyTypeInt, object_type = [],
           is_primary = True, is_indexed = True, table_column = 7\<rparr>],
      primary_key = ''id''\<rparr>"

section \<open>The column loop and the property lookup\<close>

lemma read_columns_eq:
  "read_columns table col count props = props @ map (column_property table) [col..<count]"
proof (induction table col count props rule: read_columns.induct)
  case (1 table col count props)
  show ?case
  proof (cases "col < count")
    case True
    then have "[col..<count] = col # [Suc col..<count]"
      by (simp add: upt_conv_Cons)
    with True "1.IH" show ?thesis
      by (subst read_columns.simps) (simp add: column_property_def)
  next
    case False
    then show ?thesis
      by (subst read_columns.simps) simp
  qed
qed

lemma property_index_None:
  "property_index ps n = None \<longleftrightarrow> (\<forall>p \<in> set ps. Property.name p \<noteq> n)"
  by (induction ps) auto

lemma property_index_Some:
  "property_index ps n = Some i \<Longrightarrow>
     i < length ps \<and> Property.name (ps ! i) = n \<and> (\<forall>j < i. Property.name (ps ! j) \<noteq> n)"
proof (induction ps arbitrary: i)
  case Nil
  then show ?case by simp
next
  case (Cons p ps)
  show ?case
  proof (cases "Property.name p = n")
    case True
    with Cons.prems show ?thesis by simp
  next
    case False
    with Cons.prems obtain k where k: "property_index ps n = Some k" "i = Suc k"
      by auto
    from Cons.IH [OF k(1)] False k(2) show ?thesis
      by (auto simp: nth_Cons split: nat.splits)
  qed
qed

lemma read_columns_all: "read_columns table 0 (get_column_count table) [] = column_properties table"
  by (simp add: read_columns_eq column_properties_def)

lemma length_column_properties [simp]:
  "length (column_properties table) = get_column_count table"
  by (simp add: column_properties_def)

lemma nth_column_properties:
  "col < get_column_count table \<Longrightarrow> column_properties table ! col = column_property table col"
  by (simp add: column_properties_def)

lemma column_properties_not_primary:
  "p \<in> set (column_properties table) \<Longrightarrow> \<not> is_primary p"
  by (auto simp: column_properties_def column_property_def)

section \<open>The constructor\<close>

lemma ObjectSchema_Inr:
  assumes "ObjectSchema g n = Inr os" and "table_for_object_type g n = Some table"
  shows "ObjectSchema.name os = n"
    and "primary_key os = get_primary_key_for_object g n"
    and "primary_key os = [] \<Longrightarrow> properties os = column_properties table"
    and "primary_key os \<noteq> [] \<Longrightarrow>
           \<exists>i. property_index (column_properties table) (primary_key os) = Some i
             \<and> properties os =
                 (column_properties table)[i := (column_properties table ! i)\<lparr>is_primary := True\<rparr>]"
  using assms
  by (auto simp: ObjectSchema_def read_columns_all primary_key_property_def
      property_for_name_def Let_def split: if_splits option.splits)

lemma ObjectSchema_Inr_table:
  "ObjectSchema g n = Inr os \<Longrightarrow> \<exists>table. table_for_object_type g n = Some table"
  by (auto simp: ObjectSchema_def split: option.splits)

text \<open>
  Claim C3. When the physical table of the type exists, the stored primary-key name is
  not empty and no column of the table has that name, the constructor fails with the
  validation exception; its error list is the one message that quotes the missing
  primary-key name, its object type is the name of the owning type, and no descriptor is
  returned.
\<close>

theorem ObjectSchema_primary_key_missing:
  assumes "table_for_object_type g n = Some table"
    and "get_primary_key_for_object g n \<noteq> []"
    and "\<forall>col < get_column_count table.
           get_column_name table col \<noteq> get_primary_key_for_object g n"
  shows "ObjectSchema g n =
     Inl (ObjectStoreValidationException
            [''No property matching primary key '' @ [CHR 0x27]
               @ get_primary_key_for_object g n @ [CHR 0x27]] n)"
proof -
  have "\<forall>p \<in> set (column_properties table).
          Property.name p \<noteq> get_primary_key_for_object g n"
    using assms(3) by (auto simp: column_properties_def column_property_def)
  then have "property_index (column_properties table) (get_primary_key_for_object g n) = None"
    by (simp add: property_index_None)
  with assms(1,2) show ?thesis
    by (simp add: ObjectSchema_def read_columns_all primary_key_property_def
        property_for_name_def)
qed

theorem ObjectSchema_primary_key_missing_witness:
  "table_for_object_type dangling_group ''Dog'' = Some dog_table
   \<and> get_primary_key_for_object dangling_group ''Dog'' = ''id''
   \<and> get_column_name dog_table 0 = ''age''
   \<and> ObjectSchema dangling_group ''Dog'' =
       Inl (ObjectStoreValidationException
              [''No property matching primary key '' @ [CHR 0x27] @ ''id'' @ [CHR 0x27]]
              ''Dog'')"
proof -
  have t: "table_for_object_type dangling_group ''Dog'' = Some dog_table"
    by code_simp
  have pk: "get_primary_key_for_object dangling_group ''Dog'' = ''id''"
    by code_simp
  have ne: "get_primary_key_for_object dangling_group ''Dog'' \<noteq> []"
    by (simp add: pk)
  have c0: "get_column_name dog_table 0 = ''age''"
    by code_simp
  have cols: "\<forall>col < get_column_count dog_table.
      get_column_name dog_table col \<noteq> get_primary_key_for_object dangling_group ''Dog''"
    by (simp add: pk get_column_count_def get_column_name_def dog_table_def)
  from ObjectSchema_primary_key_missing [OF t ne cols] t pk c0 show ?thesis
    by simp
qed

lemma ObjectSchema_nth:
  assumes "ObjectSchema g n = Inr os" and "table_for_object_type g n = Some table"
    and "col < get_column_count table"
  shows "length (properties os) = get_column_count table"
    and "properties os ! col = column_property table col
         \<or> properties os ! col = (column_property table col)\<lparr>is_primary := True\<rparr>"
proof -
  show "length (properties os) = get_column_count table"
    using ObjectSchema_Inr(3,4) [OF assms(1,2)] by (cases "primary_key os = []") auto
  show "properties os ! col = column_property table col
         \<or> properties os ! col = (column_property table col)\<lparr>is_primary := True\<rparr>"
  proof (cases "primary_key os = []")
    case True
    with ObjectSchema_Inr(3) [OF assms(1,2)] assms(3) show ?thesis
      by (simp add: nth_column_properties)
  next
    case False
    with ObjectSchema_Inr(4) [OF assms(1,2)] obtain i where
      i: "property_index (column_properties table) (primary_key os) = Some i"
      and ps: "properties os =
         (column_properties table)[i := (column_properties table ! i)\<lparr>is_primary := True\<rparr>]"
      by blast
    from property_index_Some [OF i] have "i < length (column_properties table)"
      by simp
    with ps assms(3) show ?thesis
      by (cases "i = col") (simp_all add: nth_column_properties)
  qed
qed

text \<open>
  Claim C4. For every table the constructor introspects and every column index \<open>col\<close>
  of that table, the property at position \<open>col\<close> of the resulting descriptor has the
  name and the type of the column, \<open>is_indexed\<close> as the table's search index says,
  \<open>table_column = col\<close>, and as \<open>object_type\<close> the logical type name of the link
  target if the column type is object-link or link-list, the empty string otherwise.
\<close>

theorem ObjectSchema_property_of_column:
  assumes "ObjectSchema g n = Inr os" and "table_for_object_type g n = Some table"
    and "col < get_column_count table"
  shows "col < length (properties os)
    \<and> Property.name (properties os ! col) = get_column_name table col
    \<and> type (properties os ! col) = get_column_type table col
    \<and> is_indexed (properties os ! col) = has_search_index table col
    \<and> table_column (properties os ! col) = col
    \<and> object_type (properties os ! col) =
        (if get_column_type table col = PropertyTypeObject
            \<or> get_column_type table col = PropertyTypeArray
         then object_type_for_table_name (get_link_target table col)
         else [])"
  using ObjectSchema_nth [OF assms] assms(3)
  by (auto simp: column_property_def)

theorem ObjectSchema_property_of_column_witness:
  "ObjectSchema example_group ''Person'' = Inr person_schema
   \<and> table_for_object_type example_group ''Person'' = Some person_table
   \<and> 2 < get_column_count person_table
   \<and> Property.name (properties person_schema ! 2) = ''dog''
   \<and> type (properties person_schema ! 2) = PropertyTypeObject
   \<and> is_indexed (properties person_schema ! 2) = False
   \<and> table_column (properties person_schema ! 2) = 2
   \<and> object_type (properties person_schema ! 2) = ''Dog''"
proof -
  have c: "ObjectSchema example_group ''Person'' = Inr person_schema"
    by code_simp
  have t: "table_for_object_type example_group ''Person'' = Some person_table"
    by code_simp
  have n: "2 < get_column_count person_table"
    by code_simp
  have col: "get_column_name person_table 2 = ''dog''"
    "get_column_type person_table 2 = PropertyTypeObject"
    "has_search_index person_table 2 = False"
    "object_type_for_table_name (get_link_target person_table 2) = ''Dog''"
    by code_simp+
  from ObjectSchema_property_of_column [OF c t n] c t n col show ?thesis
    by simp
qed

text \<open>
  Claim C10. A descriptor produced by introspecting a physical table has one property per
  physical column, and the property at position \<open>i\<close> has \<open>table_column = i\<close>.
\<close>

theorem ObjectSchema_table_column_is_position:
  assumes "ObjectSchema g n = Inr os" and "table_for_object_type g n = Some table"
  shows "length (properties os) = get_column_count table
    \<and> (\<forall>i < length (properties os). table_column (properties os ! i) = i)"
proof -
  have len: "length (properties os) = get_column_count table"
    using ObjectSchema_Inr(3,4) [OF assms] by (cases "primary_key os = []") auto
  have "table_column (properties os ! i) = i" if "i < length (properties os)" for i
    using ObjectSchema_nth(2) [OF assms, of i] that len
    by (auto simp: column_property_def)
  with len show ?thesis by simp
qed

theorem ObjectSchema_table_column_is_position_witness:
  "ObjectSchema example_group ''Person'' = Inr person_schema
   \<and> table_for_object_type example_group ''Person'' = Some person_table
   \<and> length (properties person_schema) = 3
   \<and> table_column (properties person_schema ! 0) = 0
   \<and> table_column (properties person_schema ! 1) = 1
   \<and> table_column (properties person_schema ! 2) = 2"
proof -
  have c: "ObjectSchema example_group ''Person'' = Inr person_schema"
    by code_simp
  have t: "table_for_object_type example_group ''Person'' = Some person_table"
    by code_simp
  have n: "get_column_count person_table = 3"
    by code_simp
  from ObjectSchema_table_column_is_position [OF c t] c t n show ?thesis
    by simp
qed

text \<open>
  Claim C9. For every descriptor whose construction completes: if \<open>primary_key\<close> is not
  empty, exactly one position of \<open>properties\<close> holds a property that has that name and
  \<open>is_primary\<close> set, and every property with \<open>is_primary\<close> set has that name; if
  \<open>primary_key\<close> is empty, no property has \<open>is_primary\<close> set.
\<close>

theorem ObjectSchema_primary_key_unique:
  assumes "ObjectSchema g n = Inr os"
  shows "(primary_key os \<noteq> [] \<longrightarrow>
            (\<exists>!i. i < length (properties os)
                 \<and> Property.name (properties os ! i) = primary_key os
                 \<and> is_primary (properties os ! i))
          \<and> (\<forall>j < length (properties os).
                 is_primary (properties os ! j) \<longrightarrow>
                   Property.name (properties os ! j) = primary_key os))
    \<and> (primary_key os = [] \<longrightarrow> (\<forall>p \<in> set (properties os). \<not> is_primary p))"
proof -
  from assms obtain table where t: "table_for_object_type g n = Some table"
    using ObjectSchema_Inr_table by blast
  let ?cps = "column_properties table"
  show ?thesis
  proof (cases "primary_key os = []")
    case True
    with ObjectSchema_Inr(3) [OF assms t] show ?thesis
      by (auto dest: column_properties_not_primary)
  next
    case False
    with ObjectSchema_Inr(4) [OF assms t] obtain i where
      i: "property_index ?cps (primary_key os) = Some i"
      and ps: "properties os = ?cps[i := (?cps ! i)\<lparr>is_primary := True\<rparr>]"
      by blast
    from property_index_Some [OF i] have il: "i < length ?cps"
      and nm: "Property.name (?cps ! i) = primary_key os" by blast+
    have np: "\<not> is_primary (?cps ! j)" if "j < length ?cps" for j
      using that column_properties_not_primary [of "?cps ! j" table] by simp
    have only: "j = i" if "j < length (properties os)" "is_primary (properties os ! j)" for j
      using that np [of j] ps by (cases "j = i") (auto simp: nth_list_update)
    have here: "i < length (properties os)" "Property.name (properties os ! i) = primary_key os"
      "is_primary (properties os ! i)"
      using il nm ps by simp_all
    have "\<exists>!k. k < length (properties os) \<and> Property.name (properties os ! k) = primary_key os
             \<and> is_primary (properties os ! k)"
      using here only by blast
    moreover have "\<forall>j < length (properties os). is_primary (properties os ! j) \<longrightarrow>
                   Property.name (properties os ! j) = primary_key os"
      using here only by blast
    ultimately show ?thesis using False by blast
  qed
qed

theorem ObjectSchema_primary_key_unique_witness:
  "ObjectSchema example_group ''Person'' = Inr person_schema
   \<and> primary_key person_schema = ''id''
   \<and> (\<exists>!i. i < length (properties person_schema)
          \<and> Property.name (properties person_schema ! i) = primary_key person_schema
          \<and> is_primary (properties person_schema ! i))
   \<and> ObjectSchema example_group ''Dog'' = Inr dog_schema
   \<and> primary_key dog_schema = []
   \<and> \<not> is_primary (properties dog_schema ! 0)"
proof -
  have c: "ObjectSchema example_group ''Person'' = Inr person_schema"
    by code_simp
  have pk: "primary_key person_schema = ''id''"
    by code_simp
  have d: "ObjectSchema example_group ''Dog'' = Inr dog_schema"
    by code_simp
  have dpk: "primary_key dog_schema = []"
    by code_simp
  have mem: "properties dog_schema ! 0 \<in> set (properties dog_schema)"
    by (simp add: dog_schema_def)
  from ObjectSchema_primary_key_unique [OF c] ObjectSchema_primary_key_unique [OF d]
    c pk d dpk mem show ?thesis
    by auto
qed

section \<open>The table loop\<close>

lemma collect_results_map_Inr: "collect_results (map Inr xs) = Inr xs"
  by (induction xs) simp_all

lemma collect_results_Inr_D: "collect_results rs = Inr xs \<Longrightarrow> rs = map Inr xs"
proof (induction rs arbitrary: xs)
  case Nil
  then show ?case by simp
next
  case (Cons r rs)
  show ?case
  proof (cases r)
    case (Inl e)
    with Cons.prems show ?thesis by simp
  next
    case (Inr x)
    show ?thesis
    proof (cases "collect_results rs")
      case (Inl e)
      with Cons.prems \<open>r = Inr x\<close> show ?thesis by simp
    next
      case inr: (Inr ys)
      with Cons.prems \<open>r = Inr x\<close> have "xs = x # ys" by simp
      moreover from Cons.IH [OF inr] have "rs = map Inr ys" .
      ultimately show ?thesis using \<open>r = Inr x\<close> by simp
    qed
  qed
qed

lemma collect_results_Inr: "collect_results rs = Inr xs \<longleftrightarrow> rs = map Inr xs"
  using collect_results_Inr_D collect_results_map_Inr by blast

lemma collect_results_Inl:
  "collect_results rs = Inl e \<longleftrightarrow>
     (\<exists>k < length rs. rs ! k = Inl e \<and> (\<forall>j < k. \<exists>x. rs ! j = Inr x))"
proof (induction rs)
  case Nil
  then show ?case by simp
next
  case (Cons r rs)
  show ?case
  proof (cases r)
    case (Inl e')
    show ?thesis
    proof
      assume "collect_results (r # rs) = Inl e"
      with Inl have "e' = e" by simp
      with Inl have "(r # rs) ! 0 = Inl e" by simp
      then show "\<exists>k < length (r # rs). (r # rs) ! k = Inl e \<and> (\<forall>j < k. \<exists>x. (r # rs) ! j = Inr x)"
        by (intro exI [of _ 0]) simp
    next
      assume "\<exists>k < length (r # rs). (r # rs) ! k = Inl e \<and> (\<forall>j < k. \<exists>x. (r # rs) ! j = Inr x)"
      then obtain k where k: "k < length (r # rs)" "(r # rs) ! k = Inl e"
        "\<forall>j < k. \<exists>x. (r # rs) ! j = Inr x" by blast
      have "k = 0"
      proof (rule ccontr)
        assume "k \<noteq> 0"
        with k(3) have "\<exists>x. (r # rs) ! 0 = Inr x" by blast
        with Inl show False by simp
      qed
      with k(2) Inl show "collect_results (r # rs) = Inl e" by simp
    qed
  next
    case (Inr x)
    have "collect_results (r # rs) = Inl e \<longleftrightarrow> collect_results rs = Inl e"
      using Inr by (cases "collect_results rs") auto
    also have "\<dots> \<longleftrightarrow> (\<exists>k < length rs. rs ! k = Inl e \<and> (\<forall>j < k. \<exists>x. rs ! j = Inr x))"
      by (rule Cons.IH)
    also have "\<dots> \<longleftrightarrow> (\<exists>k < length (r # rs). (r # rs) ! k = Inl e
                   \<and> (\<forall>j < k. \<exists>x. (r # rs) ! j = Inr x))"
    proof
      assume "\<exists>k < length rs. rs ! k = Inl e \<and> (\<forall>j < k. \<exists>x. rs ! j = Inr x)"
      then obtain k where k: "k < length rs" "rs ! k = Inl e" "\<forall>j < k. \<exists>x. rs ! j = Inr x"
        by blast
      have "\<forall>j < Suc k. \<exists>y. (r # rs) ! j = Inr y"
        using k(3) Inr by (auto simp: nth_Cons split: nat.splits)
      with k(1,2) show "\<exists>k < length (r # rs). (r # rs) ! k = Inl e
                   \<and> (\<forall>j < k. \<exists>x. (r # rs) ! j = Inr x)"
        by (intro exI [of _ "Suc k"]) simp
    next
      assume "\<exists>k < length (r # rs). (r # rs) ! k = Inl e \<and> (\<forall>j < k. \<exists>x. (r # rs) ! j = Inr x)"
      then obtain k where k: "k < length (r # rs)" "(r # rs) ! k = Inl e"
        "\<forall>j < k. \<exists>x. (r # rs) ! j = Inr x" by blast
      from k(2) Inr obtain k' where k': "k = Suc k'" by (cases k) auto
      with k have "k' < length rs" "rs ! k' = Inl e" by simp_all
      moreover have "\<forall>j < k'. \<exists>x. rs ! j = Inr x"
      proof (intro allI impI)
        fix j assume "j < k'"
        then have "Suc j < k" using k' by simp
        with k(3) have "\<exists>x. (r # rs) ! Suc j = Inr x" by blast
        then show "\<exists>x. rs ! j = Inr x" by simp
      qed
      ultimately show "\<exists>k < length rs. rs ! k = Inl e \<and> (\<forall>j < k. \<exists>x. rs ! j = Inr x)"
        by blast
    qed
    finally show ?thesis .
  qed
qed

lemma collect_results_append:
  "collect_results (map Inr xs @ rs) =
     (case collect_results rs of Inl e \<Rightarrow> Inl e | Inr ys \<Rightarrow> Inr (xs @ ys))"
  by (induction xs) (auto split: sum.splits)

lemma read_tables_eq:
  "read_tables g i numTables acc =
     (case collect_results (map (ObjectSchema g)
              (filter (\<lambda>n. length n \<noteq> 0)
                 (map (\<lambda>k. object_type_for_table_name (get_table_name g k)) [i..<numTables]))) of
        Inl e \<Rightarrow> Inl e
      | Inr xs \<Rightarrow> Inr (acc @ xs))"
proof (induction g i numTables acc rule: read_tables.induct)
  case (1 g i numTables acc)
  let ?n = "object_type_for_table_name (get_table_name g i)"
  show ?case
  proof (cases "i < numTables")
    case False
    then show ?thesis
      by (subst read_tables.simps) simp
  next
    case True
    then have upt: "[i..<numTables] = i # [Suc i..<numTables]"
      by (simp add: upt_conv_Cons)
    show ?thesis
    proof (cases "length ?n \<noteq> 0")
      case False
      with True "1.IH"(2) [OF True refl] upt show ?thesis
        by (subst read_tables.simps) simp
    next
      case nonempty: True
      show ?thesis
      proof (cases "ObjectSchema g ?n")
        case (Inl e)
        with True nonempty upt show ?thesis
          by (subst read_tables.simps) simp
      next
        case (Inr os)
        have step: "read_tables g i numTables acc = read_tables g (Suc i) numTables (acc @ [os])"
          using True nonempty Inr by (subst read_tables.simps) simp
        have "read_tables g (Suc i) numTables (acc @ [os]) =
           (case collect_results (map (ObjectSchema g)
              (filter (\<lambda>n. length n \<noteq> 0)
                 (map (\<lambda>k. object_type_for_table_name (get_table_name g k))
                    [Suc i..<numTables]))) of
              Inl e \<Rightarrow> Inl e
            | Inr xs \<Rightarrow> Inr ((acc @ [os]) @ xs))"
          using "1.IH"(1) [OF True refl _ Inr] nonempty by blast
        with step upt nonempty Inr show ?thesis
          by (simp split: sum.splits)
      qed
    qed
  qed
qed

lemma object_schema_from_group_eq:
  "object_schema_from_group g =
     collect_results (map (ObjectSchema g) (object_type_names g))"
proof -
  have "map (\<lambda>k. object_type_for_table_name (get_table_name g k)) [0..<length (tables g)]
        = map (\<lambda>t. object_type_for_table_name (table_name t)) (tables g)"
    by (rule nth_equalityI) (simp_all add: get_table_name_def)
  then show ?thesis
    by (simp add: object_schema_from_group_def read_tables_eq object_type_names_def
        split: sum.splits)
qed

text \<open>
  Claim C5, as amended. \<open>object_schema_from_group\<close> visits the tables in iteration
  order, skips every table whose name decodes to the empty type name, and constructs one
  descriptor for each other table. It returns a list exactly when every construction
  succeeds, and the list then holds the descriptors in table order; it fails exactly when
  a construction fails, with the failure of the first table whose construction fails.
\<close>

theorem object_schema_from_group_in_table_order:
  "(\<forall>oss. object_schema_from_group g = Inr oss \<longleftrightarrow>
       map Inr oss = map (ObjectSchema g) (object_type_names g))
   \<and> (\<forall>e. object_schema_from_group g = Inl e \<longleftrightarrow>
       (\<exists>k < length (object_type_names g).
          ObjectSchema g (object_type_names g ! k) = Inl e
          \<and> (\<forall>j < k. \<exists>os. ObjectSchema g (object_type_names g ! j) = Inr os)))"
proof -
  have "object_schema_from_group g = Inr oss \<longleftrightarrow>
       map Inr oss = map (ObjectSchema g) (object_type_names g)" for oss
    by (auto simp: object_schema_from_group_eq collect_results_Inr)
  moreover have "object_schema_from_group g = Inl e \<longleftrightarrow>
       (\<exists>k < length (object_type_names g).
          ObjectSchema g (object_type_names g ! k) = Inl e
          \<and> (\<forall>j < k. \<exists>os. ObjectSchema g (object_type_names g ! j) = Inr os))" for e
    unfolding object_schema_from_group_eq collect_results_Inl
    by (auto simp: )
  ultimately show ?thesis by blast
qed

theorem object_schema_from_group_in_table_order_witness:
  "map Inr [person_schema, dog_schema] =
      map (ObjectSchema example_group) (object_type_names example_group)
   \<and> object_schema_from_group example_group = Inr [person_schema, dog_schema]"
proof -
  have m: "map Inr [person_schema, dog_schema] =
      map (ObjectSchema example_group) (object_type_names example_group)"
    by code_simp
  from object_schema_from_group_in_table_order [of example_group] m show ?thesis
    by blast
qed

text \<open>
  The claim as first stated promises the list of descriptors for every group. In a group
  whose registry names a primary key that the table lacks, the constructor raises and so
  does \<open>object_schema_from_group\<close>.
\<close>

theorem object_schema_from_group_dangling_primary_key:
  "map table_name (tables dangling_group) = [''class_Dog'']
   \<and> object_type_for_table_name ''class_Dog'' = ''Dog''
   \<and> object_schema_from_group dangling_group =
       Inl (ObjectStoreValidationException
              [''No property matching primary key '' @ [CHR 0x27] @ ''id'' @ [CHR 0x27]]
              ''Dog'')"
  by code_simp

section \<open>The version check\<close>




section \<open>Validation of one descriptor\<close>

lemma validate_properties_eq:
  "validate_properties tn table props =
     (map (validation_error tn table) (filter (\<lambda>p. matching_column table p = None) props),
      map (map_column table) props)"
  by (induction props)
    (auto simp: matching_column_def validation_error_def map_column_def split: option.splits)

text \<open>
  Claim C8. For a store that holds the physical table of the target descriptor,
  \<open>validate_schema_and_update_column_mapping\<close> does not fail on the first error: it
  returns one error string for every property that is missing or whose primitive type or
  link target differs, in the order of the properties. Its only change to the target is
  \<open>table_column\<close>, set to the physical position of the column on each property that
  matches. It hands the store back unchanged. The error list is empty exactly when every
  property of the target has a matching column.
\<close>

theorem validate_schema_and_update_column_mapping_result:
  assumes "table_for_object_type g (ObjectSchema.name target) = Some table"
  shows "\<exists>errors target'.
     validate_schema_and_update_column_mapping g target = Inr (errors, target', g)
     \<and> errors = map (validation_error (ObjectSchema.name target) table)
                  (filter (\<lambda>p. matching_column table p = None) (properties target))
     \<and> target' = target\<lparr>properties := map (map_column table) (properties target)\<rparr>
     \<and> (\<forall>p \<in> set (properties target). \<forall>col. matching_column table p = Some col \<longrightarrow>
            map_column table p = p\<lparr>table_column := col\<rparr>
            \<and> get_column_index table (Property.name p) = Some col)
     \<and> (\<forall>p \<in> set (properties target). matching_column table p = None \<longrightarrow>
            map_column table p = p)
     \<and> (errors = [] \<longleftrightarrow> (\<forall>p \<in> set (properties target). matching_column table p \<noteq> None))"
  using assms
  by (auto simp: validate_schema_and_update_column_mapping_def validate_properties_eq
      map_column_def filter_empty_conv matching_column_def split: option.splits if_splits)

theorem validate_schema_and_update_column_mapping_result_witness:
  "table_for_object_type example_group ''Person'' = Some person_table
   \<and> validate_schema_and_update_column_mapping example_group person_target =
       Inr ([], person_target\<lparr>properties :=
                 [(properties person_target ! 0)\<lparr>table_column := 2\<rparr>,
                  (properties person_target ! 1)\<lparr>table_column := 0\<rparr>]\<rparr>, example_group)
   \<and> table_for_object_type example_group ''Dog'' = Some dog_table
   \<and> validate_schema_and_update_column_mapping example_group retyped_dog =
       Inr ([type_mismatch_error ''Dog'' ''age'', missing_property_error ''Dog'' ''breed''],
            retyped_dog, example_group)"
proof -
  have t: "table_for_object_type example_group (ObjectSchema.name person_target) = Some person_table"
    by code_simp
  have d: "table_for_object_type example_group (ObjectSchema.name retyped_dog) = Some dog_table"
    by code_simp
  have n: "ObjectSchema.name person_target = ''Person''" "ObjectSchema.name retyped_dog = ''Dog''"
    by code_simp+
  have e1: "map (validation_error (ObjectSchema.name person_target) person_table)
                  (filter (\<lambda>p. matching_column person_table p = None) (properties person_target)) = []"
    by code_simp
  have m1: "person_target\<lparr>properties := map (map_column person_table) (properties person_target)\<rparr>
      = person_target\<lparr>properties :=
                 [(properties person_target ! 0)\<lparr>table_column := 2\<rparr>,
                  (properties person_target ! 1)\<lparr>table_column := 0\<rparr>]\<rparr>"
    by code_simp
  have e2: "map (validation_error (ObjectSchema.name retyped_dog) dog_table)
                  (filter (\<lambda>p. matching_column dog_table p = None) (properties retyped_dog)) =
     [type_mismatch_error ''Dog'' ''age'', missing_property_error ''Dog'' ''breed'']"
    by code_simp
  have m2: "retyped_dog\<lparr>properties := map (map_column dog_table) (properties retyped_dog)\<rparr>
      = retyped_dog"
    by code_simp
  from validate_schema_and_update_column_mapping_result [OF t]
    validate_schema_and_update_column_mapping_result [OF d] t d n e1 m1 e2 m2
  show ?thesis by auto
qed

section \<open>Table creation\<close>







section \<open>The orchestration\<close>














end
